theory Spec2Isabelle
  imports Complex_Main
begin

section \<open>The icon browser's controller (code.js / code.ts)\<close>

text \<open>
  The controller is one message handler, \<open>figma.ui.onmessage\<close>. The repository holds it
  twice: the compiled \<open>code.js\<close>, which the manifest runs and which resolves a component
  key through \<open>variant_keys\<close> and a mode, and the older \<open>code.ts\<close>, which only knows
  \<open>component_key\<close>. The definitions below embed \<open>code.js\<close>; the definitions whose names
  end in \<open>_ts\<close> embed the corresponding part of \<open>code.ts\<close>.

  JavaScript numbers are modelled as exact reals, strings as \<open>string\<close>, \<open>undefined\<close> and a
  missing property as \<open>None\<close>. An object used as a dictionary is a map of its own
  properties; a read of it by a computed name also finds the members every plain object
  inherits from \<open>Object.prototype\<close>.
\<close>

subsection \<open>JavaScript values and truthiness\<close>

datatype jsval =
    JUndefined
  | JNull
  | JBool bool
  | JNum real
  | JStr string
  | JArr "jsval list"
  | JObj "(string \<times> jsval) list"

text \<open>What \<open>if (v)\<close>, \<open>!v\<close> and \<open>v || w\<close> test.\<close>

fun truthy :: "jsval \<Rightarrow> bool" where
  "truthy JUndefined = False"
| "truthy JNull = False"
| "truthy (JBool b) = b"
| "truthy (JNum n) = (n \<noteq> 0)"
| "truthy (JStr s) = (s \<noteq> [])"
| "truthy (JArr vs) = True"
| "truthy (JObj kvs) = True"

text \<open>\<open>a || b\<close>.\<close>

definition js_or :: "jsval \<Rightarrow> jsval \<Rightarrow> jsval" where
  "js_or a b = (if truthy a then a else b)"

text \<open>
  What a read of \<open>variant_keys[k]\<close> or of \<open>component_key\<close> yields, and what the import is
  called with: a string the record holds, or the member of \<open>Object.prototype\<close> of that
  name. An inherited member is a function (for \<open>__proto__\<close> the prototype object itself):
  truthy, and not a string.
\<close>

datatype key_value = Str string | Inherited string

text \<open>The property names of \<open>Object.prototype\<close>, which every plain object answers to.\<close>

definition object_prototype :: "string list" where
  "object_prototype =
     [''constructor'', ''hasOwnProperty'', ''isPrototypeOf'', ''propertyIsEnumerable'',
      ''toLocaleString'', ''toString'', ''valueOf'', ''__proto__'', ''__defineGetter__'',
      ''__defineSetter__'', ''__lookupGetter__'', ''__lookupSetter__'']"

definition truthy_key :: "key_value option \<Rightarrow> bool" where
  "truthy_key v = (case v of None \<Rightarrow> False | Some (Str s) \<Rightarrow> s \<noteq> [] | Some (Inherited n) \<Rightarrow> True)"

subsection \<open>Data model\<close>

text \<open>
  The fields of an icon record that the controller reads. \<open>size\<close> is \<open>size_px\<close> here.
\<close>

record IconData =
  icon_name :: string
  size_px :: nat
  component_key :: "string option"
  variant_keys :: "(string \<rightharpoonup> string) option"

record PluginMessage =
  msg_type :: string
  msg_iconData :: "IconData option"
  msg_icons :: "IconData list option"
  msg_mode :: "string option"
  msg_payload :: jsval

record ComponentNode =
  comp_width :: real
  comp_height :: real

record InstanceNode =
  inst_x :: real
  inst_y :: real
  width :: real
  height :: real

subsection \<open>The host\<close>

text \<open>
  The \<open>figma\<close> global as a record of what the handler reads and changes. \<open>library\<close>
  decides every call of \<open>importComponentByKeyAsync\<close>: the call number \<open>n\<close> (how many
  imports were issued before) and the argument give the component, or \<open>None\<close> when the
  promise rejects. \<open>import_calls\<close> logs the arguments the handler passed, \<open>notifications\<close> the calls of
  \<open>figma.notify\<close> with their error flag, \<open>ui_messages\<close> the calls of
  \<open>figma.ui.postMessage\<close> as type and payload.
\<close>

record figma =
  library :: "nat \<Rightarrow> key_value \<Rightarrow> ComponentNode option"
  viewport_center :: "real \<times> real"
  page_children :: "InstanceNode list"
  selection :: "InstanceNode list"
  viewport_focus :: "InstanceNode list option"
  notifications :: "(string \<times> bool) list"
  import_calls :: "key_value list"
  console :: "string list"
  clientStorage :: "string \<rightharpoonup> jsval"
  ui_messages :: "(string \<times> jsval) list"
  closed :: bool

definition notify :: "string \<Rightarrow> bool \<Rightarrow> figma \<Rightarrow> figma" where
  "notify message err h = h\<lparr>notifications := notifications h @ [(message, err)]\<rparr>"

definition console_error :: "string \<Rightarrow> figma \<Rightarrow> figma" where
  "console_error message h = h\<lparr>console := console h @ [message]\<rparr>"

definition importComponentByKeyAsync :: "key_value \<Rightarrow> figma \<Rightarrow> ComponentNode option \<times> figma" where
  "importComponentByKeyAsync key h =
     (library h (length (import_calls h)) key, h\<lparr>import_calls := import_calls h @ [key]\<rparr>)"

text \<open>
  \<open>component.createInstance()\<close>: the new node has the component's size. The host puts
  it on the current page; the handler assigns its coordinates in the same synchronous
  block, so the model adds the node to \<open>page_children\<close> with the assigned coordinates
  (\<open>appendChild\<close>).
\<close>

definition createInstance :: "ComponentNode \<Rightarrow> InstanceNode" where
  "createInstance component =
     \<lparr>inst_x = 0, inst_y = 0, width = comp_width component, height = comp_height component\<rparr>"

definition appendChild :: "InstanceNode \<Rightarrow> figma \<Rightarrow> figma" where
  "appendChild instance h = h\<lparr>page_children := page_children h @ [instance]\<rparr>"

definition scrollAndZoomIntoView :: "InstanceNode list \<Rightarrow> figma \<Rightarrow> figma" where
  "scrollAndZoomIntoView nodes h = h\<lparr>viewport_focus := Some nodes\<rparr>"

subsection \<open>Text of the notifications\<close>

definition digit_char :: "nat \<Rightarrow> char" where
  "digit_char d = ''0123456789'' ! d"

fun show_nat :: "nat \<Rightarrow> string" where
  "show_nat n = (if n < 10 then [digit_char n] else show_nat (n div 10) @ [digit_char (n mod 10)])"

declare show_nat.simps [simp del]

text \<open>\<open>mode === 'A' ? 'Light' : 'Dark'\<close>\<close>

definition mode_label :: "string \<Rightarrow> string" where
  "mode_label mode = (if mode = ''A'' then ''Light'' else ''Dark'')"

subsection \<open>Identifier resolution\<close>

text \<open>\<open>const mode = msg.mode || 'A'\<close>: a missing or empty mode is \<open>'A'\<close>.\<close>

definition mode_of :: "PluginMessage \<Rightarrow> string" where
  "mode_of msg = (case msg_mode msg of None \<Rightarrow> ''A'' | Some m \<Rightarrow> if m \<noteq> [] then m else ''A'')"

text \<open>
  \<open>iconData.variant_keys && iconData.variant_keys[k]\<close>: \<open>undefined\<close> when the record has
  no \<open>variant_keys\<close>, else the property \<open>k\<close> of it: its own when it has one of that name,
  else the inherited member when \<open>k\<close> names one, else \<open>undefined\<close>.
\<close>

definition variant_key :: "IconData \<Rightarrow> string \<Rightarrow> key_value option" where
  "variant_key iconData k =
     (case variant_keys iconData of
        None \<Rightarrow> None
      | Some vk \<Rightarrow>
          (case vk k of
             Some s \<Rightarrow> Some (Str s)
           | None \<Rightarrow> if k \<in> set object_prototype then Some (Inherited k) else None))"

text \<open>\<open>iconData.component_key\<close>, a fixed name that no object inherits.\<close>

definition component_key_value :: "IconData \<Rightarrow> key_value option" where
  "component_key_value iconData = map_option Str (component_key iconData)"

text \<open>
  The chain of code.js lines 16 to 26 (and again 71 to 78): \<open>componentKey\<close> starts as
  \<open>null\<close> (\<open>None\<close>) and is assigned by the first branch whose test is truthy.
\<close>

definition resolve :: "IconData \<Rightarrow> string \<Rightarrow> key_value option" where
  "resolve iconData mode =
     (if truthy_key (variant_key iconData mode) then variant_key iconData mode
      else if truthy_key (variant_key iconData ''A'') then variant_key iconData ''A''
      else if truthy_key (component_key_value iconData) then component_key_value iconData
      else None)"

text \<open>
  The precedence as the specification words it, for comparison: a key "exists and is
  non-empty" when the lookup gives something, and not the empty string.
\<close>

definition present :: "key_value option \<Rightarrow> bool" where
  "present v = (v \<noteq> None \<and> v \<noteq> Some (Str []))"

text \<open>
  A mode tag is a key of the record's \<open>variant_keys\<close>; a mode tag names a member that the
  record's \<open>variant_keys\<close> object inherits.
\<close>

definition is_key :: "IconData \<Rightarrow> string \<Rightarrow> bool" where
  "is_key iconData m = (case variant_keys iconData of None \<Rightarrow> False | Some vk \<Rightarrow> vk m \<noteq> None)"

definition inherits :: "IconData \<Rightarrow> string \<Rightarrow> bool" where
  "inherits iconData m =
     (case variant_keys iconData of None \<Rightarrow> False | Some vk \<Rightarrow> m \<in> set object_prototype)"

subsection \<open>Row-wrap placement\<close>

record layout =
  currentX :: real
  currentY :: real
  maxHeightInRow :: real
  instances :: "InstanceNode list"

definition spacing :: real where
  "spacing = 20"

definition maxRowWidth :: real where
  "maxRowWidth = 400"

text \<open>
  The loop's variables as code.js lines 61 to 68 set them: the cursor at the viewport
  center, nothing placed.
\<close>

definition initial_layout :: "real \<times> real \<Rightarrow> layout" where
  "initial_layout viewportCenter =
     \<lparr>currentX = fst viewportCenter, currentY = snd viewportCenter,
      maxHeightInRow = 0, instances = []\<rparr>"

text \<open>
  One pass of the loop body after the import (code.js lines 83 to 94): wrap when the
  instance does not fit and something was placed before, assign the cursor to the
  instance, advance the cursor, push the instance.
\<close>

definition place :: "real \<Rightarrow> ComponentNode \<Rightarrow> layout \<Rightarrow> InstanceNode \<times> layout" where
  "place rowStartX component l =
     (let instance = createInstance component;
          l1 = (if currentX l - rowStartX + width instance > maxRowWidth \<and> length (instances l) > 0
                then l\<lparr>currentX := rowStartX,
                       currentY := currentY l + (maxHeightInRow l + spacing),
                       maxHeightInRow := 0\<rparr>
                else l);
          instance = instance\<lparr>inst_x := currentX l1, inst_y := currentY l1\<rparr>
      in (instance,
          l1\<lparr>currentX := currentX l1 + (width instance + spacing),
              maxHeightInRow := max (maxHeightInRow l1) (height instance),
              instances := instances l1 @ [instance]\<rparr>))"

text \<open>
  The \<open>for (const iconData of icons)\<close> loop. \<open>Inl h\<close>: the awaited import rejected and
  the exception leaves the loop, with the host as it was then. An unresolved record is
  skipped by \<open>continue\<close>.
\<close>

fun insert_loop :: "string \<Rightarrow> real \<Rightarrow> IconData list \<Rightarrow> layout \<Rightarrow> figma \<Rightarrow> figma + layout \<times> figma" where
  "insert_loop mode rowStartX [] l h = Inr (l, h)"
| "insert_loop mode rowStartX (iconData # rest) l h =
     (case resolve iconData mode of
        None \<Rightarrow> insert_loop mode rowStartX rest l h
      | Some componentKey \<Rightarrow>
          (case importComponentByKeyAsync componentKey h of
             (None, h1) \<Rightarrow> Inl h1
           | (Some component, h1) \<Rightarrow>
               (case place rowStartX component l of
                  (instance, l1) \<Rightarrow> insert_loop mode rowStartX rest l1 (appendChild instance h1))))"

subsection \<open>The handlers\<close>

text \<open>
  A handler returns the exception that escapes it, if any (the promise of the async
  function rejects), and the host it leaves.
\<close>

datatype js_error = TypeError

definition quote :: string where
  "quote = [CHR 0x22]"

text \<open>
  \<open>insert-icon\<close>, code.js lines 11 to 51. \<open>iconData.variant_keys\<close> on a missing
  \<open>iconData\<close> throws before the \<open>try\<close> block.
\<close>

definition insert_icon :: "PluginMessage \<Rightarrow> figma \<Rightarrow> js_error option \<times> figma" where
  "insert_icon msg h =
     (let mode = mode_of msg in
      case msg_iconData msg of
        None \<Rightarrow> (Some TypeError, h)
      | Some iconData \<Rightarrow>
          (case resolve iconData mode of
             None \<Rightarrow> (None, notify ''Error: No component key provided'' True h)
           | Some componentKey \<Rightarrow>
               (case importComponentByKeyAsync componentKey h of
                  (None, h1) \<Rightarrow>
                    (None,
                     notify (''Error: Could not import '' @ quote @ icon_name iconData @ quote
                             @ ''. Make sure the library is enabled.'') True
                       (console_error ''Error importing component:'' h1))
                | (Some component, h1) \<Rightarrow>
                    (let instance = createInstance component;
                         viewportCenter = viewport_center h1;
                         instance = instance\<lparr>inst_x := fst viewportCenter - width instance / 2,
                                              inst_y := snd viewportCenter - height instance / 2\<rparr>;
                         h2 = appendChild instance h1;
                         h3 = h2\<lparr>selection := [instance]\<rparr>;
                         h4 = scrollAndZoomIntoView [instance] h3
                     in (None,
                         notify (''Inserted: '' @ icon_name iconData @ '' ('' @ show_nat (size_px iconData)
                                 @ ''px, '' @ mode_label mode @ '')'') False h4)))))"

text \<open>\<open>insert-multiple\<close>, code.js lines 52 to 104: one \<open>try\<close> around the whole loop.\<close>

definition insert_multiple :: "PluginMessage \<Rightarrow> figma \<Rightarrow> js_error option \<times> figma" where
  "insert_multiple msg h =
     (let mode = mode_of msg in
      case msg_icons msg of
        None \<Rightarrow> (None, notify ''No icons selected'' True h)
      | Some icons \<Rightarrow>
          if length icons = 0 then (None, notify ''No icons selected'' True h)
          else
            (let viewportCenter = viewport_center h;
                 l0 = initial_layout viewportCenter;
                 rowStartX = fst viewportCenter
             in case insert_loop mode rowStartX icons l0 h of
                  Inr (l, h1) \<Rightarrow>
                    (None,
                     notify (''Inserted '' @ show_nat (length icons) @ '' icons ('' @ mode_label mode @ '')'')
                       False
                       (scrollAndZoomIntoView (instances l) (h1\<lparr>selection := instances l\<rparr>)))
                | Inl h1 \<Rightarrow>
                    (None,
                     notify ''Error importing some icons. Make sure the library is enabled.'' True
                       (console_error ''Error importing components:'' h1))))"

text \<open>
  \<open>get-cached-data\<close>: \<open>getAsync\<close> gives \<open>undefined\<close> for a key never written; the reply
  carries \<open>cached || null\<close>. \<open>cache-data\<close>: \<open>setAsync\<close> overwrites the key. The storage
  calls are modelled as taking effect in the order the handler issues them.
\<close>

definition getAsync :: "string \<Rightarrow> figma \<Rightarrow> jsval" where
  "getAsync key h = (case clientStorage h key of None \<Rightarrow> JUndefined | Some v \<Rightarrow> v)"

definition setAsync :: "string \<Rightarrow> jsval \<Rightarrow> figma \<Rightarrow> figma" where
  "setAsync key v h = h\<lparr>clientStorage := (clientStorage h)(key \<mapsto> v)\<rparr>"

definition postMessage :: "string \<Rightarrow> jsval \<Rightarrow> figma \<Rightarrow> figma" where
  "postMessage ty pl h = h\<lparr>ui_messages := ui_messages h @ [(ty, pl)]\<rparr>"

definition get_cached_data :: "figma \<Rightarrow> js_error option \<times> figma" where
  "get_cached_data h =
     (let cached = getAsync ''icon-data'' h
      in (None, postMessage ''cached-data'' (js_or cached JNull) h))"

definition cache_data :: "PluginMessage \<Rightarrow> figma \<Rightarrow> js_error option \<times> figma" where
  "cache_data msg h = (None, setAsync ''icon-data'' (msg_payload msg) h)"

text \<open>
  The handler. The source tests \<open>msg.type\<close> in five \<open>if\<close> statements one after the
  other; the tested strings differ, so at most one body runs.
\<close>

definition onmessage :: "PluginMessage \<Rightarrow> figma \<Rightarrow> js_error option \<times> figma" where
  "onmessage msg h =
     (if msg_type msg = ''insert-icon'' then insert_icon msg h
      else if msg_type msg = ''insert-multiple'' then insert_multiple msg h
      else if msg_type msg = ''get-cached-data'' then get_cached_data h
      else if msg_type msg = ''cache-data'' then cache_data msg h
      else if msg_type msg = ''close'' then (None, h\<lparr>closed := True\<rparr>)
      else (None, h))"

subsection \<open>The single insert of code.ts\<close>

text \<open>
  \<open>insert-icon\<close> as code.ts has it, lines 30 to 61: the guard tests \<open>iconData\<close> itself
  before it reads \<open>component_key\<close>, and there is no mode.
\<close>

definition insert_icon_ts :: "PluginMessage \<Rightarrow> figma \<Rightarrow> js_error option \<times> figma" where
  "insert_icon_ts msg h =
     (case msg_iconData msg of
        None \<Rightarrow> (None, notify ''Error: No component key provided'' True h)
      | Some iconData \<Rightarrow>
          (case component_key iconData of
             None \<Rightarrow> (None, notify ''Error: No component key provided'' True h)
           | Some key \<Rightarrow>
               if key = [] then (None, notify ''Error: No component key provided'' True h)
               else
                 (case importComponentByKeyAsync (Str key) h of
                    (None, h1) \<Rightarrow>
                      (None,
                       notify (''Error: Could not import '' @ quote @ icon_name iconData @ quote
                               @ ''. Make sure the library is enabled.'') True
                         (console_error ''Error importing component:'' h1))
                  | (Some component, h1) \<Rightarrow>
                      (let instance = createInstance component;
                           viewportCenter = viewport_center h1;
                           instance = instance\<lparr>inst_x := fst viewportCenter - width instance / 2,
                                                inst_y := snd viewportCenter - height instance / 2\<rparr>;
                           h2 = appendChild instance h1;
                           h3 = h2\<lparr>selection := [instance]\<rparr>;
                           h4 = scrollAndZoomIntoView [instance] h3
                       in (None,
                           notify (''Inserted: '' @ icon_name iconData @ '' ('' @ show_nat (size_px iconData)
                                   @ ''px)'') False h4)))))"

subsection \<open>Geometry of the placed instances\<close>

text \<open>
  Two instances overlap when their bounding rectangles share a point, edges included;
  instances that do not overlap in this sense have disjoint interiors as well.
\<close>

definition overlap :: "InstanceNode \<Rightarrow> InstanceNode \<Rightarrow> bool" where
  "overlap a b =
     (inst_x a \<le> inst_x b + width b \<and> inst_x b \<le> inst_x a + width a \<and>
      inst_y a \<le> inst_y b + height b \<and> inst_y b \<le> inst_y a + height a)"

fun non_overlapping :: "InstanceNode list \<Rightarrow> bool" where
  "non_overlapping [] = True"
| "non_overlapping (a # rest) = (list_all (\<lambda>b. \<not> overlap a b) rest \<and> non_overlapping rest)"

text \<open>The nodes a handler run added to the page.\<close>

definition placed :: "figma \<Rightarrow> figma \<Rightarrow> InstanceNode list" where
  "placed h h' = drop (length (page_children h)) (page_children h')"

definition position :: "InstanceNode \<Rightarrow> real \<times> real" where
  "position a = (inst_x a, inst_y a)"

text \<open>All sizes the library can hand out are positive.\<close>

definition positive_sizes :: "figma \<Rightarrow> bool" where
  "positive_sizes h = (\<forall>n key. case library h n key of None \<Rightarrow> True
                                   | Some c \<Rightarrow> 0 < comp_width c \<and> 0 < comp_height c)"

text \<open>
  The invariant of the loop: what was placed does not overlap, and every placed instance
  lies either in a finished row above the cursor's row or in the cursor's row, left of
  the cursor and no higher than \<open>maxHeightInRow\<close>.
\<close>

definition placed_ok :: "layout \<Rightarrow> bool" where
  "placed_ok l =
     (0 \<le> maxHeightInRow l \<and> non_overlapping (instances l) \<and>
      list_all (\<lambda>a. inst_y a + height a < currentY l \<or>
                     (inst_y a = currentY l \<and> inst_x a + width a < currentX l \<and>
                      height a \<le> maxHeightInRow l))
        (instances l))"

text \<open>What the loop leaves alone: everything but the page and the import log.\<close>

definition loop_frame :: "figma \<Rightarrow> figma \<Rightarrow> bool" where
  "loop_frame h h' =
     (library h' = library h \<and> viewport_center h' = viewport_center h \<and>
      selection h' = selection h \<and> viewport_focus h' = viewport_focus h \<and>
      notifications h' = notifications h \<and> console h' = console h \<and>
      clientStorage h' = clientStorage h \<and> ui_messages h' = ui_messages h \<and>
      closed h' = closed h)"

subsection \<open>Example requests\<close>

text \<open>
  A host whose viewport is centred at (1000, 1000) and whose library answers every key
  with a component 150 wide and 50 high, except the key \<open>missing\<close> and whatever is not a
  string, which it rejects.
\<close>

definition host0 :: figma where
  "host0 =
     \<lparr>library = (\<lambda>n key. case key of
                              Str s \<Rightarrow> if s = ''missing'' then None
                                       else Some \<lparr>comp_width = 150, comp_height = 50\<rparr>
                            | Inherited name \<Rightarrow> None),
      viewport_center = (1000, 1000), page_children = [], selection = [],
      viewport_focus = None, notifications = [], import_calls = [], console = [],
      clientStorage = Map.empty, ui_messages = [], closed = False\<rparr>"

definition icon :: "string \<Rightarrow> IconData" where
  "icon key = \<lparr>icon_name = ''pin'', size_px = 16, component_key = Some key, variant_keys = None\<rparr>"

definition icon_variants :: "(string \<rightharpoonup> string) \<Rightarrow> string option \<Rightarrow> IconData" where
  "icon_variants vk key = \<lparr>icon_name = ''pin'', size_px = 16, component_key = key, variant_keys = Some vk\<rparr>"

definition icon_none :: IconData where
  "icon_none = \<lparr>icon_name = [], size_px = 0, component_key = None, variant_keys = None\<rparr>"

definition single :: "IconData option \<Rightarrow> string option \<Rightarrow> PluginMessage" where
  "single iconData mode =
     \<lparr>msg_type = ''insert-icon'', msg_iconData = iconData, msg_icons = None,
      msg_mode = mode, msg_payload = JUndefined\<rparr>"

definition batch :: "IconData list option \<Rightarrow> PluginMessage" where
  "batch icons =
     \<lparr>msg_type = ''insert-multiple'', msg_iconData = None, msg_icons = icons,
      msg_mode = None, msg_payload = JUndefined\<rparr>"

definition cache_msg :: "jsval \<Rightarrow> PluginMessage" where
  "cache_msg payload =
     \<lparr>msg_type = ''cache-data'', msg_iconData = None, msg_icons = None,
      msg_mode = None, msg_payload = payload\<rparr>"

definition get_msg :: PluginMessage where
  "get_msg =
     \<lparr>msg_type = ''get-cached-data'', msg_iconData = None, msg_icons = None,
      msg_mode = None, msg_payload = JUndefined\<rparr>"

section \<open>Properties\<close>

subsection \<open>Auxiliary facts\<close>

lemma present_truthy: "truthy_key v = present v"
  by (cases v) (auto simp: truthy_key_def present_def split: key_value.splits)

lemma show_nat_digit: "n < 10 \<Longrightarrow> show_nat n = [digit_char n]"
  by (simp add: show_nat.simps)

lemmas eval_defs =
  onmessage_def batch_def single_def insert_multiple_def insert_icon_def icon_def icon_none_def
  host0_def mode_of_def truthy_key_def component_key_value_def initial_layout_def
  resolve_def variant_key_def object_prototype_def
  importComponentByKeyAsync_def place_def createInstance_def appendChild_def spacing_def
  maxRowWidth_def notify_def console_error_def scrollAndZoomIntoView_def position_def
  mode_label_def show_nat_digit digit_char_def Let_def

subsection \<open>Identifier resolution\<close>

text \<open>
  C1. Resolution follows a strict precedence, first match winning: the variant key of the
  requested mode when it exists and is non-empty, else the variant key of mode A when it
  exists and is non-empty, else the component key when it exists and is non-empty, else
  nothing. The same holds when the requested mode is A itself: a record with a usable
  variant key A resolves to it in mode A, whatever its component key.
\<close>

theorem resolve_precedence:
  "(present (variant_key d m) \<longrightarrow> resolve d m = variant_key d m) \<and>
   (\<not> present (variant_key d m) \<and> present (variant_key d ''A'')
      \<longrightarrow> resolve d m = variant_key d ''A'') \<and>
   (\<not> present (variant_key d m) \<and> \<not> present (variant_key d ''A'') \<and> present (component_key_value d)
      \<longrightarrow> resolve d m = component_key_value d) \<and>
   (\<not> present (variant_key d m) \<and> \<not> present (variant_key d ''A'') \<and> \<not> present (component_key_value d)
      \<longrightarrow> resolve d m = None) \<and>
   (present (variant_key d ''A'') \<longrightarrow> resolve d ''A'' = variant_key d ''A'')"
  by (simp add: resolve_def present_truthy)

theorem resolve_precedence_witness:
  "resolve (icon_variants [''A'' \<mapsto> ''ka'', ''B'' \<mapsto> ''kb''] (Some ''ck'')) ''B'' = Some (Str ''kb'') \<and>
   resolve (icon_variants [''A'' \<mapsto> ''ka''] (Some ''ck'')) ''B'' = Some (Str ''ka'') \<and>
   resolve (icon_variants [''B'' \<mapsto> []] (Some ''ck'')) ''B'' = Some (Str ''ck'') \<and>
   resolve (icon_variants Map.empty None) ''B'' = None \<and>
   resolve (icon_variants [''A'' \<mapsto> ''ka''] (Some ''ck'')) ''A'' = Some (Str ''ka'')"
  using resolve_precedence [of "icon_variants [''A'' \<mapsto> ''ka'', ''B'' \<mapsto> ''kb''] (Some ''ck'')" "''B''"]
        resolve_precedence [of "icon_variants [''A'' \<mapsto> ''ka''] (Some ''ck'')" "''B''"]
        resolve_precedence [of "icon_variants [''B'' \<mapsto> []] (Some ''ck'')" "''B''"]
        resolve_precedence [of "icon_variants Map.empty None" "''B''"]
  by (simp add: present_def variant_key_def component_key_value_def icon_variants_def
        object_prototype_def)

subsection \<open>Single insert\<close>

text \<open>
  C7. An insert-icon request whose record resolves to no identifier makes no import
  call, leaves the page and the selection as they were, and shows exactly one
  notification, an error.
\<close>

theorem insert_icon_unresolved:
  assumes "msg_type msg = ''insert-icon''" and "msg_iconData msg = Some d"
    and "resolve d (mode_of msg) = None"
  shows "onmessage msg h = (None, notify ''Error: No component key provided'' True h) \<and>
         import_calls (snd (onmessage msg h)) = import_calls h \<and>
         page_children (snd (onmessage msg h)) = page_children h \<and>
         selection (snd (onmessage msg h)) = selection h \<and>
         notifications (snd (onmessage msg h))
           = notifications h @ [(''Error: No component key provided'', True)]"
  using assms by (simp add: onmessage_def insert_icon_def notify_def)

theorem insert_icon_unresolved_witness:
  "import_calls (snd (onmessage (single (Some icon_none) (Some ''B'')) host0)) = [] \<and>
   page_children (snd (onmessage (single (Some icon_none) (Some ''B'')) host0)) = [] \<and>
   notifications (snd (onmessage (single (Some icon_none) (Some ''B'')) host0))
     = [(''Error: No component key provided'', True)]"
  using insert_icon_unresolved [of "single (Some icon_none) (Some ''B'')" icon_none host0]
  by (simp add: single_def icon_none_def resolve_def variant_key_def truthy_key_def
        component_key_value_def host0_def
        notify_def)

text \<open>
  C8. A successful insert-icon request (the record resolves and the import succeeds) adds
  one instance of the component's size whose top-left corner is the viewport center minus
  half the width and half the height, so that its middle is the viewport center; the
  instance is the selection and the view is scrolled to it.
\<close>

theorem insert_icon_centered:
  assumes "msg_type msg = ''insert-icon''" and "msg_iconData msg = Some d"
    and "resolve d (mode_of msg) = Some key"
    and "library h (length (import_calls h)) key = Some c"
  shows "fst (onmessage msg h) = None \<and>
         placed h (snd (onmessage msg h)) =
           [\<lparr>inst_x = fst (viewport_center h) - comp_width c / 2,
             inst_y = snd (viewport_center h) - comp_height c / 2,
             width = comp_width c, height = comp_height c\<rparr>] \<and>
         list_all (\<lambda>a. inst_x a + width a / 2 = fst (viewport_center h) \<and>
                        inst_y a + height a / 2 = snd (viewport_center h))
           (placed h (snd (onmessage msg h))) \<and>
         page_children (snd (onmessage msg h)) = page_children h @ placed h (snd (onmessage msg h)) \<and>
         selection (snd (onmessage msg h)) = placed h (snd (onmessage msg h)) \<and>
         viewport_focus (snd (onmessage msg h)) = Some (placed h (snd (onmessage msg h)))"
  using assms
  by (simp add: onmessage_def insert_icon_def importComponentByKeyAsync_def createInstance_def
        appendChild_def scrollAndZoomIntoView_def notify_def placed_def Let_def)

theorem insert_icon_centered_witness:
  "placed host0 (snd (onmessage (single (Some (icon ''a'')) None) host0))
     = [\<lparr>inst_x = 925, inst_y = 975, width = 150, height = 50\<rparr>] \<and>
   selection (snd (onmessage (single (Some (icon ''a'')) None) host0))
     = [\<lparr>inst_x = 925, inst_y = 975, width = 150, height = 50\<rparr>]"
  using insert_icon_centered [of "single (Some (icon ''a'')) None" "icon ''a''" "Str ''a''" host0
          "\<lparr>comp_width = 150, comp_height = 50\<rparr>"]
  by (simp add: single_def icon_def resolve_def variant_key_def truthy_key_def
        component_key_value_def host0_def mode_of_def)

text \<open>
  C6. An insert-multiple request with no icons (an empty or a missing list) and an
  insert-icon request with an empty record are answered with one notification and nothing
  else. An insert-icon request with no \<open>iconData\<close> at all is not: code.js reads
  \<open>iconData.variant_keys\<close> before any guard, the handler fails with a TypeError and
  notifies nobody, where code.ts tests \<open>!iconData\<close> first and notifies.
\<close>

theorem empty_requests:
  "onmessage (single None m) h = (Some TypeError, h) \<and>
   insert_icon_ts (single None m) h = (None, notify ''Error: No component key provided'' True h) \<and>
   onmessage (single (Some icon_none) m) h = (None, notify ''Error: No component key provided'' True h) \<and>
   onmessage (batch (Some [])) h = (None, notify ''No icons selected'' True h) \<and>
   onmessage (batch None) h = (None, notify ''No icons selected'' True h)"
  by (simp add: onmessage_def single_def batch_def insert_icon_def insert_icon_ts_def
        insert_multiple_def icon_none_def resolve_def variant_key_def truthy_key_def
        component_key_value_def)

subsection \<open>The cache\<close>

text \<open>
  C5, as the claim states it, fails for a payload that is falsy: the number 0 written to
  the cache comes back as null.
\<close>

theorem cache_roundtrip_zero:
  "ui_messages (snd (onmessage get_msg (snd (onmessage (cache_msg (JNum 0)) host0))))
     = [(''cached-data'', JNull)] \<and>
   ui_messages (snd (onmessage get_msg (snd (onmessage (cache_msg (JNum 0)) host0))))
     \<noteq> [(''cached-data'', JNum 0)]"
  by (simp add: onmessage_def get_msg_def cache_msg_def cache_data_def get_cached_data_def
        getAsync_def setAsync_def postMessage_def js_or_def host0_def)

text \<open>
  C5, amended. Writing a truthy payload P with cache-data and then asking with
  get-cached-data posts one cached-data reply that carries P; a falsy payload
  (undefined, null, false, 0, the empty string) comes back as null; before any write the
  reply carries null; the empty catalog, an empty array, is truthy and differs from null,
  so it comes back as itself.
\<close>

theorem cache_roundtrip:
  "(truthy P \<longrightarrow>
      ui_messages (snd (onmessage get_msg (snd (onmessage (cache_msg P) h))))
        = ui_messages h @ [(''cached-data'', P)]) \<and>
   (\<not> truthy P \<longrightarrow>
      ui_messages (snd (onmessage get_msg (snd (onmessage (cache_msg P) h))))
        = ui_messages h @ [(''cached-data'', JNull)]) \<and>
   (clientStorage h ''icon-data'' = None \<longrightarrow>
      ui_messages (snd (onmessage get_msg h)) = ui_messages h @ [(''cached-data'', JNull)]) \<and>
   truthy (JArr []) \<and> JArr [] \<noteq> JNull"
  by (simp add: onmessage_def get_msg_def cache_msg_def cache_data_def get_cached_data_def
        getAsync_def setAsync_def postMessage_def js_or_def)

theorem cache_roundtrip_witness:
  "ui_messages (snd (onmessage get_msg (snd (onmessage (cache_msg (JArr [])) host0))))
     = [(''cached-data'', JArr [])] \<and>
   ui_messages (snd (onmessage get_msg (snd (onmessage (cache_msg (JStr [])) host0))))
     = [(''cached-data'', JNull)] \<and>
   ui_messages (snd (onmessage get_msg host0)) = [(''cached-data'', JNull)]"
  using cache_roundtrip [of "JArr []" host0] cache_roundtrip [of "JStr []" host0]
  by (simp add: host0_def)

subsection \<open>Batch insert: the loop\<close>

lemma non_overlapping_snoc:
  "non_overlapping (xs @ [n]) = (non_overlapping xs \<and> list_all (\<lambda>a. \<not> overlap a n) xs)"
  by (induction xs) auto

lemma place_instances:
  "instances (snd (place rsx c l)) = instances l @ [fst (place rsx c l)]"
  by (simp add: place_def Let_def)

lemma place_ok:
  assumes "placed_ok l" and "0 < comp_width c" and "0 < comp_height c"
  shows "placed_ok (snd (place rsx c l))"
proof (cases "currentX l - rsx + comp_width c > maxRowWidth \<and> length (instances l) > 0")
  case True
  with assms show ?thesis
    by (auto simp: place_def Let_def placed_ok_def createInstance_def non_overlapping_snoc
          overlap_def list_all_iff spacing_def)
next
  case False
  with assms show ?thesis
    by (auto simp: place_def Let_def placed_ok_def createInstance_def non_overlapping_snoc
          overlap_def list_all_iff spacing_def)
qed

lemma positive_sizesD:
  "positive_sizes h \<Longrightarrow> library h n key = Some c \<Longrightarrow> 0 < comp_width c \<and> 0 < comp_height c"
  unfolding positive_sizes_def
  by (metis option.simps(5))

lemma insert_loop_inv:
  assumes "positive_sizes h" and "placed_ok l" and "page_children h = P @ instances l"
  shows "case insert_loop mode rsx ics l h of
           Inr (l', h') \<Rightarrow> placed_ok l' \<and> page_children h' = P @ instances l'
         | Inl h' \<Rightarrow> (\<exists>xs. page_children h' = P @ xs \<and> non_overlapping xs)"
  using assms
proof (induction ics arbitrary: l h)
  case Nil
  then show ?case by simp
next
  case (Cons d ics)
  show ?case
  proof (cases "resolve d mode")
    case None
    with Cons show ?thesis by simp
  next
    case (Some key)
    show ?thesis
    proof (cases "library h (length (import_calls h)) key")
      case None
      with Some Cons.prems show ?thesis
        by (auto simp: importComponentByKeyAsync_def placed_ok_def)
    next
      case (Some c)
      let ?h1 = "appendChild (fst (place rsx c l)) (h\<lparr>import_calls := import_calls h @ [key]\<rparr>)"
      let ?l1 = "snd (place rsx c l)"
      from Cons.prems(1) Some have pos: "0 < comp_width c \<and> 0 < comp_height c"
        by (rule positive_sizesD)
      have a: "positive_sizes ?h1"
        using Cons.prems(1) by (simp add: positive_sizes_def appendChild_def)
      have b: "placed_ok ?l1"
        using Cons.prems(2) pos by (simp add: place_ok)
      have c: "page_children ?h1 = P @ instances ?l1"
        using Cons.prems(3) by (simp add: appendChild_def place_instances)
      have step: "insert_loop mode rsx (d # ics) l h = insert_loop mode rsx ics ?l1 ?h1"
        using \<open>resolve d mode = Some key\<close> Some
        by (simp add: importComponentByKeyAsync_def split: prod.splits)
      from Cons.IH [OF a b c] b show ?thesis
        unfolding step
        by (auto simp: placed_ok_def split: sum.splits)
    qed
  qed
qed

lemma insert_loop_frame:
  "case insert_loop mode rsx ics l h of Inr (l', h') \<Rightarrow> loop_frame h h' | Inl h' \<Rightarrow> loop_frame h h'"
proof (induction ics arbitrary: l h)
  case Nil
  show ?case by (simp add: loop_frame_def)
next
  case (Cons d ics)
  show ?case
  proof (cases "resolve d mode")
    case None
    with Cons show ?thesis by simp
  next
    case (Some key)
    show ?thesis
    proof (cases "library h (length (import_calls h)) key")
      case None
      with Some show ?thesis
        by (simp add: importComponentByKeyAsync_def loop_frame_def)
    next
      case (Some c)
      let ?h1 = "appendChild (fst (place rsx c l)) (h\<lparr>import_calls := import_calls h @ [key]\<rparr>)"
      have step: "insert_loop mode rsx (d # ics) l h = insert_loop mode rsx ics (snd (place rsx c l)) ?h1"
        using \<open>resolve d mode = Some key\<close> Some
        by (simp add: importComponentByKeyAsync_def split: prod.splits)
      have "loop_frame h ?h1 = True"
        by (simp add: loop_frame_def appendChild_def)
      with Cons [where l = "snd (place rsx c l)" and h = ?h1] show ?thesis
        unfolding step by (auto simp: loop_frame_def split: sum.splits)
    qed
  qed
qed

lemma insert_loop_page:
  "insert_loop mode rsx ics l h = Inr (l', h') \<Longrightarrow> page_children h = P @ instances l
     \<Longrightarrow> page_children h' = P @ instances l'"
proof (induction ics arbitrary: l h)
  case Nil
  then show ?case by simp
next
  case (Cons d ics)
  show ?case
  proof (cases "resolve d mode")
    case None
    with Cons show ?thesis by simp
  next
    case (Some key)
    show ?thesis
    proof (cases "library h (length (import_calls h)) key")
      case None
      with Some Cons.prems show ?thesis
        by (simp add: importComponentByKeyAsync_def)
    next
      case (Some c)
      let ?h1 = "appendChild (fst (place rsx c l)) (h\<lparr>import_calls := import_calls h @ [key]\<rparr>)"
      have step: "insert_loop mode rsx (d # ics) l h = insert_loop mode rsx ics (snd (place rsx c l)) ?h1"
        using \<open>resolve d mode = Some key\<close> Some
        by (simp add: importComponentByKeyAsync_def split: prod.splits)
      have "page_children ?h1 = P @ instances (snd (place rsx c l))"
        using Cons.prems(2) by (simp add: appendChild_def place_instances)
      with Cons.IH [where l = "snd (place rsx c l)" and h = ?h1] Cons.prems(1) show ?thesis
        unfolding step by simp
    qed
  qed
qed

lemma insert_loop_append:
  "insert_loop mode rsx (pre @ rest) l h =
     (case insert_loop mode rsx pre l h of
        Inl h1 \<Rightarrow> Inl h1
      | Inr (l1, h1) \<Rightarrow> insert_loop mode rsx rest l1 h1)"
  by (induction pre arbitrary: l h) (auto split: option.splits prod.splits)

text \<open>
  C9. In an insert-multiple request on a host whose components all have positive width
  and height, the nodes the request adds to the page are exactly the placed instances,
  and their bounding rectangles are pairwise disjoint (they do not even touch). This
  holds as well for the instances placed before an import fails.
\<close>

theorem batch_non_overlapping:
  assumes "msg_type msg = ''insert-multiple''" and "positive_sizes h"
  shows "page_children (snd (onmessage msg h)) = page_children h @ placed h (snd (onmessage msg h)) \<and>
         non_overlapping (placed h (snd (onmessage msg h)))"
proof -
  have empty: "placed_ok (initial_layout (viewport_center h))"
    by (simp add: placed_ok_def initial_layout_def)
  have page: "page_children h = page_children h @ instances (initial_layout (viewport_center h))"
    by (simp add: initial_layout_def)
  have ex: "\<exists>xs. page_children (snd (onmessage msg h)) = page_children h @ xs \<and> non_overlapping xs"
  proof (cases "msg_icons msg")
    case None
    with assms(1) show ?thesis
      by (simp add: onmessage_def insert_multiple_def notify_def)
  next
    case (Some icons)
    show ?thesis
    proof (cases "icons = []")
      case True
      with Some assms(1) show ?thesis
        by (simp add: onmessage_def insert_multiple_def notify_def)
    next
      case False
      from insert_loop_inv [OF assms(2) empty page, where mode = "mode_of msg"
          and rsx = "fst (viewport_center h)" and ics = icons]
      show ?thesis
        using Some False assms(1)
        by (auto simp: onmessage_def insert_multiple_def notify_def console_error_def
              scrollAndZoomIntoView_def placed_ok_def Let_def split: sum.splits)
    qed
  qed
  then obtain xs where "page_children (snd (onmessage msg h)) = page_children h @ xs" and "non_overlapping xs"
    by blast
  then show ?thesis by (simp add: placed_def)
qed

theorem batch_non_overlapping_witness:
  "positive_sizes host0 \<and>
   non_overlapping (placed host0
      (snd (onmessage (batch (Some [icon ''a'', icon ''b'', icon ''c'', icon ''d''])) host0)))"
proof -
  have p: "positive_sizes host0"
    by (simp add: positive_sizes_def host0_def split: key_value.splits)
  have t: "msg_type (batch (Some [icon ''a'', icon ''b'', icon ''c'', icon ''d''])) = ''insert-multiple''"
    by (simp add: batch_def)
  from batch_non_overlapping [OF t p] p show ?thesis by simp
qed

text \<open>
  C3, amended. When the import of one record fails in an insert-multiple request, after
  the records before it were processed without a failure, the exception is caught once,
  around the whole loop: the failed record is not placed, the records after it are
  neither imported nor placed (the outcome does not depend on them), the instances placed
  before stay on the page, the selection and the view are left as they were, one
  notification is added, the error text and not a count, and the handler returns
  normally.
\<close>

theorem batch_import_failure:
  assumes "msg_type msg = ''insert-multiple''"
    and "msg_icons msg = Some (pre @ d # post)"
    and "insert_loop (mode_of msg) (fst (viewport_center h)) pre (initial_layout (viewport_center h)) h
           = Inr (l1, h1)"
    and "resolve d (mode_of msg) = Some key"
    and "library h1 (length (import_calls h1)) key = None"
  shows "onmessage msg h =
           (None,
            notify ''Error importing some icons. Make sure the library is enabled.'' True
              (console_error ''Error importing components:''
                 (h1\<lparr>import_calls := import_calls h1 @ [key]\<rparr>))) \<and>
         page_children h1 = page_children h @ instances l1 \<and>
         selection h1 = selection h \<and> viewport_focus h1 = viewport_focus h \<and>
         notifications h1 = notifications h"
proof -
  have loop: "insert_loop (mode_of msg) (fst (viewport_center h)) (pre @ d # post)
                (initial_layout (viewport_center h)) h
              = Inl (h1\<lparr>import_calls := import_calls h1 @ [key]\<rparr>)"
    using assms(3-5) by (simp add: insert_loop_append importComponentByKeyAsync_def)
  have run: "onmessage msg h =
           (None,
            notify ''Error importing some icons. Make sure the library is enabled.'' True
              (console_error ''Error importing components:''
                 (h1\<lparr>import_calls := import_calls h1 @ [key]\<rparr>)))"
    using assms(1,2) loop by (simp add: onmessage_def insert_multiple_def Let_def)
  have page: "page_children h1 = page_children h @ instances l1"
    using insert_loop_page [OF assms(3), where P = "page_children h"] by (simp add: initial_layout_def)
  have "loop_frame h h1"
    using insert_loop_frame [where mode = "mode_of msg" and rsx = "fst (viewport_center h)" and ics = pre
        and l = "initial_layout (viewport_center h)" and h = h]
      assms(3) by simp
  with run page show ?thesis by (simp add: loop_frame_def)
qed

theorem batch_import_failure_witness:
  "import_calls (snd (onmessage (batch (Some [icon ''a'', icon ''missing'', icon ''c''])) host0))
     = [Str ''a'', Str ''missing''] \<and>
   page_children (snd (onmessage (batch (Some [icon ''a'', icon ''missing'', icon ''c''])) host0))
     = [\<lparr>inst_x = 1000, inst_y = 1000, width = 150, height = 50\<rparr>] \<and>
   selection (snd (onmessage (batch (Some [icon ''a'', icon ''missing'', icon ''c''])) host0)) = [] \<and>
   notifications (snd (onmessage (batch (Some [icon ''a'', icon ''missing'', icon ''c''])) host0))
     = [(''Error importing some icons. Make sure the library is enabled.'', True)]"
proof -
  let ?msg = "batch (Some [icon ''a'', icon ''missing'', icon ''c''])"
  let ?inst = "\<lparr>inst_x = 1000, inst_y = 1000, width = 150, height = 50\<rparr>"
  let ?l1 = "\<lparr>currentX = 1170, currentY = 1000, maxHeightInRow = 50, instances = [?inst]\<rparr>"
  let ?h1 = "host0\<lparr>import_calls := [Str ''a''], page_children := [?inst]\<rparr>"
  have a: "msg_type ?msg = ''insert-multiple''"
    by (simp add: batch_def)
  have b: "msg_icons ?msg = Some ([icon ''a''] @ icon ''missing'' # [icon ''c''])"
    by (simp add: batch_def)
  have c: "insert_loop (mode_of ?msg) (fst (viewport_center host0)) [icon ''a'']
             (initial_layout (viewport_center host0)) host0 = Inr (?l1, ?h1)"
    by (simp add: eval_defs cong: let_weak_cong prod.case_cong_weak)
  have d: "resolve (icon ''missing'') (mode_of ?msg) = Some (Str ''missing'')"
    by (simp add: eval_defs)
  have e: "library ?h1 (length (import_calls ?h1)) (Str ''missing'') = None"
    by (simp add: host0_def)
  from batch_import_failure [OF a b c d e] show ?thesis
    by (simp add: notify_def console_error_def host0_def)
qed

text \<open>
  C3, as the claim states it, fails: with two records of which the first cannot be
  imported, the second is never imported or placed, and the notification is the error
  text.
\<close>

theorem batch_import_failure_stops_loop:
  "import_calls (snd (onmessage (batch (Some [icon ''missing'', icon ''b''])) host0)) = [Str ''missing''] \<and>
   page_children (snd (onmessage (batch (Some [icon ''missing'', icon ''b''])) host0)) = [] \<and>
   selection (snd (onmessage (batch (Some [icon ''missing'', icon ''b''])) host0)) = [] \<and>
   notifications (snd (onmessage (batch (Some [icon ''missing'', icon ''b''])) host0))
     = [(''Error importing some icons. Make sure the library is enabled.'', True)]"
  by (simp add: eval_defs cong: let_weak_cong prod.case_cong_weak)

text \<open>
  C2, as the claim states it, fails: with spacing 20 and a row width of 400, the third
  of three objects 150 wide is not put at (1340, 1000).
\<close>

theorem row_wrap_example_third_wraps:
  "map position (selection (snd (onmessage (batch (Some [icon ''a'', icon ''b'', icon ''c''])) host0)))
     \<noteq> [(1000, 1000), (1170, 1000), (1340, 1000)]"
  by (simp add: eval_defs cong: let_weak_cong prod.case_cong_weak)

text \<open>
  C2, amended. With spacing 20 and a row width of 400, objects 150 wide and 50 high
  inserted at the viewport center (1000, 1000) are placed at (1000, 1000) and
  (1170, 1000); the third wraps, since 1340 - 1000 + 150 = 490 exceeds 400, and lands at
  (1000, 1070); a fourth lands beside it at (1170, 1070).
\<close>

theorem row_wrap_example:
  "map position (selection (snd (onmessage (batch (Some [icon ''a'', icon ''b'', icon ''c''])) host0)))
     = [(1000, 1000), (1170, 1000), (1000, 1070)] \<and>
   map position (selection (snd (onmessage (batch (Some [icon ''a'', icon ''b'', icon ''c'', icon ''d''])) host0)))
     = [(1000, 1000), (1170, 1000), (1000, 1070), (1170, 1070)]"
  by (simp add: eval_defs cong: let_weak_cong prod.case_cong_weak)

text \<open>
  C4. A batch of five records of which two resolve to nothing: three imports are made,
  three instances are placed and selected, and the notification reads
  "Inserted 5 icons": it counts the records of the request, not the instances.
\<close>

theorem batch_with_unresolved_count:
  "import_calls (snd (onmessage (batch (Some [icon ''a'', icon_none, icon ''b'', icon_none, icon ''c''])) host0))
     = [Str ''a'', Str ''b'', Str ''c''] \<and>
   length (selection (snd (onmessage (batch (Some [icon ''a'', icon_none, icon ''b'', icon_none, icon ''c''])) host0))) = 3 \<and>
   length (page_children (snd (onmessage (batch (Some [icon ''a'', icon_none, icon ''b'', icon_none, icon ''c''])) host0))) = 3 \<and>
   notifications (snd (onmessage (batch (Some [icon ''a'', icon_none, icon ''b'', icon_none, icon ''c''])) host0))
     = [(''Inserted 5 icons (Light)'', False)]"
  by (simp add: eval_defs cong: let_weak_cong prod.case_cong_weak)

subsection \<open>Fallback to mode A\<close>

lemma resolve_nonempty: "resolve d m = Some (Str a) \<Longrightarrow> a \<noteq> []"
  by (auto simp: resolve_def truthy_key_def component_key_value_def
        split: if_splits option.splits key_value.splits)

lemma variant_key_None: "\<not> is_key d m \<Longrightarrow> \<not> inherits d m \<Longrightarrow> variant_key d m = None"
  by (auto simp: is_key_def inherits_def variant_key_def split: option.splits)

text \<open>
  C10, as the claim states it, fails for a mode tag that names a member inherited from
  \<open>Object.prototype\<close>: \<open>constructor\<close> is not a key of a record's variant keys, yet the chain
  takes the inherited member, not variant key A, and the handler passes it to the import.
\<close>

theorem inherited_mode_does_not_fall_back:
  "\<not> is_key (icon_variants [''A'' \<mapsto> ''ka''] (Some ''ck'')) ''constructor'' \<and>
   resolve (icon_variants [''A'' \<mapsto> ''ka''] (Some ''ck'')) ''constructor''
     = Some (Inherited ''constructor'') \<and>
   resolve (icon_variants [''A'' \<mapsto> ''ka''] (Some ''ck'')) ''A'' = Some (Str ''ka'') \<and>
   resolve (icon_variants [''A'' \<mapsto> ''ka''] (Some ''ck'')) ''constructor''
     \<noteq> resolve (icon_variants [''A'' \<mapsto> ''ka''] (Some ''ck'')) ''A'' \<and>
   import_calls (snd (onmessage
       (single (Some (icon_variants [''A'' \<mapsto> ''ka''] (Some ''ck''))) (Some ''constructor'')) host0))
     = [Inherited ''constructor'']"
  by (simp add: is_key_def icon_variants_def eval_defs)

text \<open>
  C10, amended. When the requested mode tag is not a key of the record's variant keys
  and, where the record has variant keys, does not name a member they inherit from
  \<open>Object.prototype\<close>, resolution gives what mode A gives: variant key A when it is
  usable, else the component key, else nothing. What variant key B holds does not change
  the result. The handler's outcome is the same as for a record that carries the resolved
  identifier under the requested tag itself, so nothing tells that a fallback happened.
\<close>

theorem missing_mode_falls_back:
  assumes "\<not> is_key d m" and "\<not> inherits d m"
  shows "resolve d m = resolve d ''A'' \<and>
         resolve d m = (if present (variant_key d ''A'') then variant_key d ''A''
                        else if present (component_key_value d) then component_key_value d else None) \<and>
         (m \<noteq> ''B'' \<longrightarrow>
            resolve (d\<lparr>variant_keys := map_option (\<lambda>vk. vk(''B'' := b)) (variant_keys d)\<rparr>) m
              = resolve d m) \<and>
         (resolve d m = Some (Str a) \<and> msg_iconData msg = Some d \<and> mode_of msg = m \<longrightarrow>
            onmessage msg h =
              onmessage (msg\<lparr>msg_iconData := Some (d\<lparr>variant_keys :=
                  Some ((case variant_keys d of None \<Rightarrow> Map.empty | Some vk \<Rightarrow> vk)(m \<mapsto> a))\<rparr>)\<rparr>) h)"
proof -
  have none: "variant_key d m = None"
    using assms by (rule variant_key_None)
  have 1: "resolve d m = resolve d ''A''"
    using none by (simp add: resolve_def truthy_key_def)
  have 2: "resolve d m = (if present (variant_key d ''A'') then variant_key d ''A''
                        else if present (component_key_value d) then component_key_value d else None)"
    using none by (simp add: resolve_def present_truthy) (simp add: present_def)
  have 3: "m \<noteq> ''B'' \<longrightarrow>
            resolve (d\<lparr>variant_keys := map_option (\<lambda>vk. vk(''B'' := b)) (variant_keys d)\<rparr>) m
              = resolve d m"
    using assms
    by (cases "variant_keys d")
       (auto simp: resolve_def variant_key_def is_key_def inherits_def component_key_value_def)
  have 4: "onmessage msg h =
              onmessage (msg\<lparr>msg_iconData := Some (d\<lparr>variant_keys :=
                  Some ((case variant_keys d of None \<Rightarrow> Map.empty | Some vk \<Rightarrow> vk)(m \<mapsto> a))\<rparr>)\<rparr>) h"
    if r: "resolve d m = Some (Str a)" and i: "msg_iconData msg = Some d" and mo: "mode_of msg = m"
  proof -
    let ?d' = "d\<lparr>variant_keys :=
                  Some ((case variant_keys d of None \<Rightarrow> Map.empty | Some vk \<Rightarrow> vk)(m \<mapsto> a))\<rparr>"
    have "a \<noteq> []" using r by (rule resolve_nonempty)
    then have r': "resolve ?d' m = Some (Str a)"
      by (simp add: resolve_def variant_key_def truthy_key_def)
    have "mode_of (msg\<lparr>msg_iconData := Some ?d'\<rparr>) = mode_of msg"
      by (simp add: mode_of_def)
    with mo have mo': "mode_of (msg\<lparr>msg_iconData := Some ?d'\<rparr>) = m"
      by simp
    show ?thesis
      using r r' i mo mo'
      by (simp add: onmessage_def insert_icon_def insert_multiple_def cache_data_def
            importComponentByKeyAsync_def split: option.splits)
  qed
  from 1 2 3 4 show ?thesis by blast
qed

theorem missing_mode_falls_back_witness:
  "resolve (icon_variants [''A'' \<mapsto> ''ka'', ''B'' \<mapsto> ''kb''] (Some ''ck'')) ''C'' = Some (Str ''ka'') \<and>
   resolve (icon_variants [''A'' \<mapsto> ''ka'', ''B'' \<mapsto> ''kb''] (Some ''ck'')) ''A'' = Some (Str ''ka'') \<and>
   resolve (icon_variants [''A'' \<mapsto> ''ka''] (Some ''ck'')) ''C'' = Some (Str ''ka'') \<and>
   onmessage (single (Some (icon_variants [''A'' \<mapsto> ''ka'', ''B'' \<mapsto> ''kb''] (Some ''ck''))) (Some ''C'')) host0
     = onmessage (single (Some (icon_variants [''A'' \<mapsto> ''ka'', ''B'' \<mapsto> ''kb'', ''C'' \<mapsto> ''ka''] (Some ''ck'')))
          (Some ''C'')) host0"
  using missing_mode_falls_back
          [of "icon_variants [''A'' \<mapsto> ''ka'', ''B'' \<mapsto> ''kb''] (Some ''ck'')" "''C''" None "''ka''"
              "single (Some (icon_variants [''A'' \<mapsto> ''ka'', ''B'' \<mapsto> ''kb''] (Some ''ck''))) (Some ''C'')" host0]
  by (auto simp: present_def variant_key_def is_key_def inherits_def object_prototype_def
        component_key_value_def icon_variants_def single_def mode_of_def)

end
